theory Spec2Isabelle
  imports Complex_Main
begin

section \<open>Data model\<close>

text \<open>
  The notebook defines the ingredients of a physics-informed network for the heat
  equation: the initial and boundary data \<open>fun_u_0\<close> and \<open>fun_u_b\<close>, the source term
  \<open>heat_src\<close>, the residual \<open>fun_residual\<close> and the sampler \<open>draw_X\<close>.

  Floating-point numbers are modelled as reals. A rank-1 tensor is the list of its
  components, so \<open>x.shape[0]\<close> is \<open>length x\<close>; a rank-2 tensor is the list of its rows.
  An exception raised by the Python code is the \<open>Inl\<close> side of a sum.
\<close>

datatype py_error = AttributeError | IndexError

type_synonym vector = "real list"

type_synonym matrix = "real list list"

text \<open>\<open>tf.zeros((n, m))\<close> and \<open>tf.ones((n, m))\<close>.\<close>

definition tf_zeros :: "nat \<Rightarrow> nat \<Rightarrow> matrix" where
  "tf_zeros n m = replicate n (replicate m 0)"

definition tf_ones :: "nat \<Rightarrow> nat \<Rightarrow> matrix" where
  "tf_ones n m = replicate n (replicate m 1)"

text \<open>\<open>x[i]\<close> on a rank-1 tensor, for the literal indices 0 and 1 of the source.\<close>

definition getitem :: "vector \<Rightarrow> nat \<Rightarrow> py_error + real" where
  "getitem x i = (if i < length x then Inr (x ! i) else Inl IndexError)"

section \<open>Initial and boundary condition\<close>

text \<open>
  \<^verbatim>\<open>
  def fun_u_0(x):
      n = x.shape[0]
      return tf.zeros((n,1), dtype=DTYPE)

  def fun_u_b(x, t):
      n = x.shape[0]
      return tf.zeros((n,1), dtype=DTYPE)
  \<close>
  The batch \<open>x\<close> is a list of \<open>n\<close> items; neither function looks into them.
\<close>

definition fun_u_0 :: "'a list \<Rightarrow> matrix" where
  "fun_u_0 x = (let n = length x in tf_zeros n 1)"

definition fun_u_b :: "'a list \<Rightarrow> 't \<Rightarrow> matrix" where
  "fun_u_b x t = (let n = length x in tf_zeros n 1)"

section \<open>Source term\<close>

text \<open>
  The names of Python's \<open>math\<close> module that round a float to an integer. The module
  has no attribute called \<open>cel\<close>; looking up a name it lacks raises \<open>AttributeError\<close>.
\<close>

definition math :: "string \<rightharpoonup> (real \<Rightarrow> int)" where
  "math = [''ceil'' \<mapsto> ceiling, ''floor'' \<mapsto> floor,
           ''trunc'' \<mapsto> (\<lambda>v. if v < 0 then ceiling v else floor v)]"

definition getattr_math :: "string \<Rightarrow> py_error + (real \<Rightarrow> int)" where
  "getattr_math name = (case math name of None \<Rightarrow> Inl AttributeError | Some f \<Rightarrow> Inr f)"

definition period :: real where
  "period = 0.2"

text \<open>
  \<^verbatim>\<open>
  point_within_period = t/period - math.cel(t/period)
  \<close>
\<close>

definition point_within_period :: "real \<Rightarrow> py_error + real" where
  "point_within_period t =
     (case getattr_math ''cel'' of
        Inl e \<Rightarrow> Inl e
      | Inr cel \<Rightarrow> Inr (t / period - of_int (cel (t / period))))"

text \<open>
  \<open>(x[0] > c0) and (x[1] > c1)\<close>: Python's \<open>and\<close> evaluates its right operand only
  when the left one is true.
\<close>

definition both_above :: "vector \<Rightarrow> real \<Rightarrow> real \<Rightarrow> py_error + bool" where
  "both_above x c0 c1 =
     (case getitem x 0 of
        Inl e \<Rightarrow> Inl e
      | Inr x0 \<Rightarrow>
          if x0 > c0
          then (case getitem x 1 of Inl e \<Rightarrow> Inl e | Inr x1 \<Rightarrow> Inr (x1 > c1))
          else Inr False)"

text \<open>
  The branches of \<open>heat_src\<close> below the phase computation, with \<open>n\<close> and the phase
  \<open>p\<close> as computed above them:
  \<^verbatim>\<open>
  if(point_within_period >= 0.0 and point_within_period <= 0.2):
      if((x[0] > 0.5) and (x[1] > -0.5)):
          return tf.ones((n,1), dtype=DTYPE)
      else:
          return tf.zeros((n,1), dtype=DTYPE)
  elif(point_within_period >= 0.5 and point_within_period <= 0.7):
      if((x[0] > -0.5) and (x[1] > 0.5)):
          return tf.ones((n,1), dtype=DTYPE)
      else:
          return tf.zeros((n,1), dtype=DTYPE)
  else:
      return tf.zeros((n,1), dtype=DTYPE)
  \<close>
\<close>

definition heat_src_branches :: "nat \<Rightarrow> vector \<Rightarrow> real \<Rightarrow> py_error + matrix" where
  "heat_src_branches n x p =
     (if p \<ge> 0.0 \<and> p \<le> 0.2 then
        (case both_above x 0.5 (- 0.5) of
           Inl e \<Rightarrow> Inl e
         | Inr c \<Rightarrow> if c then Inr (tf_ones n 1) else Inr (tf_zeros n 1))
      else if p \<ge> 0.5 \<and> p \<le> 0.7 then
        (case both_above x (- 0.5) 0.5 of
           Inl e \<Rightarrow> Inl e
         | Inr c \<Rightarrow> if c then Inr (tf_ones n 1) else Inr (tf_zeros n 1))
      else Inr (tf_zeros n 1))"

text \<open>
  \<^verbatim>\<open>
  def heat_src(x,t):
      n = x.shape[0]
      point_within_period = t/period - math.cel(t/period)
      ...
  \<close>
\<close>

definition heat_src :: "vector \<Rightarrow> real \<Rightarrow> py_error + matrix" where
  "heat_src x t =
     (let n = length x in
      case point_within_period t of
        Inl e \<Rightarrow> Inl e
      | Inr p \<Rightarrow> heat_src_branches n x p)"

text \<open>
  The phase in the specification's words, \<open>(t / period) mod 1\<close>: the fractional part of
  \<open>t / period\<close>. It is compared with \<open>point_within_period\<close> below.
\<close>

definition spec_phase :: "real \<Rightarrow> real" where
  "spec_phase t = frac (t / period)"

section \<open>Residual\<close>

text \<open>
  \<^verbatim>\<open>
  def fun_residual(x, t, f_x, u_xx, u_yy, u_t, u):
      return f_x + u_xx + u_yy - u_t
  \<close>
  The operands are of any type with \<open>+\<close> and \<open>-\<close>; \<open>x\<close>, \<open>t\<close> and \<open>u\<close> are of any type.
\<close>

definition fun_residual ::
  "'x \<Rightarrow> 't \<Rightarrow> 'a::{plus,minus} \<Rightarrow> 'a \<Rightarrow> 'a \<Rightarrow> 'a \<Rightarrow> 'u \<Rightarrow> 'a" where
  "fun_residual x t f_x u_xx u_yy u_t u = f_x + u_xx + u_yy - u_t"

section \<open>Sampler\<close>

text \<open>
  \<^verbatim>\<open>
  @tf.function
  def draw_X(num_samples, a, b):
      dim = a.shape[0]
  \<close>
  The body ends after the assignment, so the call returns Python's \<open>None\<close>, the
  \<open>None\<close> of the option type here.
\<close>

definition draw_X :: "int \<Rightarrow> vector \<Rightarrow> vector \<Rightarrow> matrix option" where
  "draw_X num_samples a b = (let dim = length a in None)"

section \<open>Properties of the residual\<close>

text \<open>
  C4: for all inputs, \<open>fun_residual\<close> returns exactly \<open>f + u_xx + u_yy - u_t\<close>, built from
  its arguments by addition and subtraction alone; with \<open>f = 1\<close>, \<open>u_xx = 2\<close>,
  \<open>u_yy = 3\<close>, \<open>u_t = 4\<close> the residual is 2.
\<close>

theorem fun_residual_value:
  "fun_residual x t f u_xx u_yy u_t u = f + u_xx + u_yy - u_t
   \<and> fun_residual x t (1::real) 2 3 4 u = 2"
  by (simp add: fun_residual_def)

text \<open>
  C9: the result of \<open>fun_residual\<close> does not depend on its arguments \<open>x\<close>, \<open>t\<close> and \<open>u\<close>:
  two calls that agree on \<open>f_x\<close>, \<open>u_xx\<close>, \<open>u_yy\<close> and \<open>u_t\<close> return the same value.
\<close>

theorem fun_residual_ignores_x_t_u:
  "fun_residual x t f_x u_xx u_yy u_t u = fun_residual x' t' f_x u_xx u_yy u_t u'"
  by (simp add: fun_residual_def)

section \<open>Properties of the initial and boundary condition\<close>

text \<open>
  C5: for every input batch of size \<open>n\<close> (in particular every nonzero \<open>n\<close>),
  \<open>fun_u_0\<close> and \<open>fun_u_b\<close> each return a column of zeros of length exactly \<open>n\<close>:
  \<open>n\<close> rows, each holding the single entry 0.
\<close>

theorem fun_u_0_fun_u_b_zero_column:
  "fun_u_0 x = replicate (length x) [0]
   \<and> fun_u_b x t = replicate (length x) [0]
   \<and> length (fun_u_0 x) = length x
   \<and> length (fun_u_b x t) = length x"
  by (simp add: fun_u_0_def fun_u_b_def tf_zeros_def)

section \<open>Properties of the source term\<close>

text \<open>What \<open>heat_src\<close> runs once the phase computation has yielded a value.\<close>

lemma heat_src_unfold:
  "heat_src x t =
     (case point_within_period t of
        Inl e \<Rightarrow> Inl e
      | Inr p \<Rightarrow> heat_src_branches (length x) x p)"
  by (simp add: heat_src_def)

text \<open>
  For a point with two components the branches are the window policy: ones when the
  phase is in \<open>[0, 0.2]\<close> and \<open>x[0] > 0.5\<close>, \<open>x[1] > -0.5\<close>, or the phase is in
  \<open>[0.5, 0.7]\<close> and \<open>x[0] > -0.5\<close>, \<open>x[1] > 0.5\<close>; zeros otherwise.
\<close>

lemma heat_src_branches_policy:
  "heat_src_branches n [x0, x1] p =
     Inr (if (0 \<le> p \<and> p \<le> 0.2 \<and> x0 > 0.5 \<and> x1 > - 0.5)
             \<or> (0.5 \<le> p \<and> p \<le> 0.7 \<and> x0 > - 0.5 \<and> x1 > 0.5)
          then tf_ones n 1 else tf_zeros n 1)"
  by (auto simp: heat_src_branches_def both_above_def getitem_def)

text \<open>The phase of the specification is periodic with period \<open>period\<close>.\<close>

lemma spec_phase_periodic:
  "spec_phase (t + of_int k * period) = spec_phase t"
  by (simp add: spec_phase_def period_def add_divide_distrib)

text \<open>
  C2: for every input \<open>x\<close> and \<open>t\<close>, calling \<open>heat_src\<close> raises an attribute error,
  because the phase computation calls \<open>math.cel\<close>, which the module does not have.
\<close>

theorem heat_src_raises_AttributeError:
  "math ''cel'' = None \<and> heat_src x t = Inl AttributeError"
  by (simp add: heat_src_def point_within_period_def getattr_math_def math_def)

text \<open>
  C1: the claim is that \<open>heat_src\<close> computes the phase of \<open>t\<close> as \<open>(t / period) mod 1\<close>.
  At \<open>t = 0.05\<close> that phase is \<open>0.25\<close>, while the phase computation of the code
  yields no value: it raises \<open>AttributeError\<close>.
\<close>

theorem point_within_period_no_phase:
  "point_within_period (1 / 20) = Inl AttributeError \<and> spec_phase (1 / 20) = 1 / 4"
  by (simp add: point_within_period_def getattr_math_def math_def spec_phase_def
      period_def frac_def)

text \<open>
  C3: the claim is that \<open>heat_src\<close> returns 1 inside a window whose spatial condition
  holds and 0 otherwise, so that \<open>heat_src([1,1], 0.05)\<close> returns 0 and
  \<open>heat_src([1,1], 0.0)\<close> returns 1. The code returns at neither input: both calls
  raise \<open>AttributeError\<close>.
\<close>

theorem heat_src_examples_raise:
  "heat_src [1, 1] (1 / 20) = Inl AttributeError \<and> heat_src [1, 1] 0 = Inl AttributeError"
  by (simp add: heat_src_def point_within_period_def getattr_math_def math_def)

text \<open>
  C6: the claim is that the phase computed by \<open>heat_src\<close> is the same at \<open>t\<close> and at
  \<open>t + k * period\<close>. At \<open>t = 0.05\<close> and \<open>k = 1\<close> the code computes a phase at
  neither time: both computations raise \<open>AttributeError\<close>.
\<close>

theorem point_within_period_shifted_no_phase:
  "point_within_period (1 / 20) = Inl AttributeError
   \<and> point_within_period (1 / 20 + of_int 1 * period) = Inl AttributeError"
  by (simp add: point_within_period_def getattr_math_def math_def)

text \<open>
  C7: every value \<open>heat_src\<close> returns is exactly 0 or exactly 1. All its return
  statements are in the branches below the phase computation; whatever the phase \<open>p\<close>
  and the point \<open>x\<close>, a value they return is the column of \<open>n\<close> zeros or the column of
  \<open>n\<close> ones.
\<close>

theorem heat_src_branches_zero_or_one:
  "heat_src_branches n x p = Inr v \<Longrightarrow> v = replicate n [0] \<or> v = replicate n [1]"
  by (auto simp: heat_src_branches_def tf_zeros_def tf_ones_def
      split: if_splits sum.splits)

theorem heat_src_branches_zero_or_one_witness:
  "heat_src_branches 2 [1, 1] 0 = Inr [[1], [1]]
   \<and> ([[1], [1]] = replicate 2 [0::real] \<or> [[1], [1]] = replicate 2 [1::real])"
proof -
  have ret: "heat_src_branches 2 [1, 1] 0 = Inr [[1], [1]]"
    by (simp add: heat_src_branches_def both_above_def getitem_def tf_ones_def
        numeral_2_eq_2)
  from heat_src_branches_zero_or_one [OF ret] ret show ?thesis
    by simp
qed

text \<open>
  C10: every return branch of \<open>heat_src\<close> yields a column tensor of shape \<open>(n, 1)\<close>
  with \<open>n\<close> the size of the first dimension of \<open>x\<close>: whenever the phase computation
  yields a value \<open>p\<close>, a returned tensor has as many rows as \<open>x\<close> has components, each
  row of length 1, whichever window or spatial condition applies.
\<close>

theorem heat_src_branches_shape:
  "heat_src_branches (length x) x p = Inr v \<Longrightarrow>
     length v = length x \<and> map length v = replicate (length x) 1"
  by (auto simp: heat_src_branches_def tf_zeros_def tf_ones_def
      split: if_splits sum.splits)

theorem heat_src_branches_shape_witness:
  "heat_src_branches (length [3, 4 :: real]) [3, 4] (3 / 5) = Inr [[1], [1]]
   \<and> length [[1 :: real], [1]] = length [3, 4 :: real]
   \<and> map length [[1 :: real], [1]] = replicate (length [3, 4 :: real]) 1"
proof -
  have ret: "heat_src_branches (length [3, 4 :: real]) [3, 4] (3 / 5) = Inr [[1], [1]]"
    by (simp add: heat_src_branches_def both_above_def getitem_def tf_ones_def
        numeral_2_eq_2)
  from heat_src_branches_shape [OF ret] ret show ?thesis
    by simp
qed

section \<open>Properties of the sampler\<close>

text \<open>
  C8: the claim is that \<open>draw_X(count, a, b)\<close> produces exactly \<open>count\<close> points inside
  the hyper-rectangle \<open>[a, b]\<close>. The code returns \<open>None\<close> on every input, so also
  for one sample between the notebook's bounds \<open>a = b = [0, 0]\<close>: it produces no
  points.
\<close>

theorem draw_X_returns_None:
  "draw_X num_samples a b = None \<and> draw_X 1 [0, 0] [0, 0] = None"
  by (simp add: draw_X_def)

end
